theory Spec2Isabelle
  imports Main
begin

section \<open>Python strings\<close>

text \<open>
  A Python \<open>str\<close> is modelled as a \<open>string\<close>: one \<open>char\<close> stands for one code point,
  so \<open>length\<close> is Python's \<open>len\<close>. The type \<open>char\<close> has 256 values, so the model covers
  the strings whose code points are below 256.
\<close>

definition py_isspace :: "char \<Rightarrow> bool" where
  \<comment> \<open>the characters \<open>str.strip()\<close> removes: U+0009..U+000D, U+001C..U+0020, U+0085, U+00A0\<close>
  "py_isspace c =
     (let n = (of_char c :: nat)
      in (9 \<le> n \<and> n \<le> 13) \<or> (28 \<le> n \<and> n \<le> 32) \<or> n = 133 \<or> n = 160)"

definition py_strip_by :: "(char \<Rightarrow> bool) \<Rightarrow> string \<Rightarrow> string" where
  \<comment> \<open>removes the matching characters at both ends\<close>
  "py_strip_by p s = rev (dropWhile p (rev (dropWhile p s)))"

definition py_strip :: "string \<Rightarrow> string" where
  \<comment> \<open>\<open>s.strip()\<close>\<close>
  "py_strip s = py_strip_by py_isspace s"

definition py_strip_chars :: "string \<Rightarrow> string \<Rightarrow> string" where
  \<comment> \<open>\<open>s.strip(chars)\<close>\<close>
  "py_strip_chars chars s = py_strip_by (\<lambda>c. c \<in> set chars) s"

definition py_startswith :: "string \<Rightarrow> string \<Rightarrow> bool" where
  \<comment> \<open>\<open>s.startswith(p)\<close>\<close>
  "py_startswith s p = (take (length p) s = p)"

definition py_slice_index :: "int \<Rightarrow> nat \<Rightarrow> nat" where
  \<comment> \<open>a slice bound on a sequence of length \<open>n\<close>: negative bounds count from the end,
      and every bound is clamped to \<open>0..n\<close>\<close>
  "py_slice_index i n = (if i < 0 then nat (max 0 (int n + i)) else min (nat i) n)"

definition py_slice :: "int \<Rightarrow> int \<Rightarrow> string \<Rightarrow> string" where
  \<comment> \<open>\<open>s[a:b]\<close>\<close>
  "py_slice a b s =
     (let lo = py_slice_index a (length s); hi = py_slice_index b (length s)
      in take (hi - lo) (drop lo s))"

section \<open>Exceptions\<close>

text \<open>
  The handlers of the program tell three classes of exception apart: \<open>ValueError\<close> (and
  its subclasses), the other subclasses of \<open>Exception\<close>, and the exceptions that derive
  from \<open>BaseException\<close> only (\<open>SystemExit\<close>, \<open>KeyboardInterrupt\<close>, \<open>GeneratorExit\<close>), which
  \<open>except Exception\<close> does not catch.

  The handlers ask an exception for its text in two ways: by formatting it in an f-string
  (\<open>{e}\<close>) and by \<open>str(e)\<close>. Either runs code of the exception's class, \<open>__format__\<close> or
  \<open>__str__\<close>, which gives a text or raises in its turn. \<open>exc_format\<close> and \<open>exc_str\<close> are these
  two outcomes. \<open>plain_exc c m\<close> is the ordinary exception, whose text is \<open>m\<close> either way.
\<close>

datatype py_class = ValueError | OtherException | BaseExceptionOnly

datatype py_exc =
  PyExc (exc_class: py_class) (exc_format: "py_exc + string") (exc_str: "py_exc + string")

definition plain_exc :: "py_class \<Rightarrow> string \<Rightarrow> py_exc" where
  "plain_exc c m = PyExc c (Inr m) (Inr m)"

definition is_Exception :: "py_exc \<Rightarrow> bool" where
  "is_Exception e = (exc_class e \<noteq> BaseExceptionOnly)"

definition is_ValueError :: "py_exc \<Rightarrow> bool" where
  "is_ValueError e = (exc_class e = ValueError)"

section \<open>The JSON text of an error object\<close>

definition hex_digit :: "nat \<Rightarrow> char" where
  "hex_digit n = ''0123456789abcdef'' ! (n mod 16)"

definition json_escape_char :: "char \<Rightarrow> string" where
  \<comment> \<open>\<open>json.dumps\<close> with its default \<open>ensure_ascii=True\<close>: the quote, the backslash and
      everything outside \<open>' '..'~'\<close> is escaped\<close>
  "json_escape_char c =
     (if c = CHR 0x22 then [CHR 0x5C, CHR 0x22]
      else if c = CHR 0x5C then [CHR 0x5C, CHR 0x5C]
      else if c = CHR 0x08 then [CHR 0x5C, CHR ''b'']
      else if c = CHR 0x0C then [CHR 0x5C, CHR ''f'']
      else if c = CHR 0x0A then [CHR 0x5C, CHR ''n'']
      else if c = CHR 0x0D then [CHR 0x5C, CHR ''r'']
      else if c = CHR 0x09 then [CHR 0x5C, CHR ''t'']
      else if (of_char c :: nat) < 32 \<or> 126 < (of_char c :: nat)
        then [CHR 0x5C, CHR ''u'', CHR ''0'', CHR ''0'',
              hex_digit ((of_char c :: nat) div 16), hex_digit (of_char c :: nat)]
      else [c])"

definition json_string :: "string \<Rightarrow> string" where
  "json_string s = [CHR 0x22] @ concat (map json_escape_char s) @ [CHR 0x22]"

definition json_dumps_error :: "string \<Rightarrow> string" where
  \<comment> \<open>\<open>json.dumps({"error": msg})\<close>\<close>
  \<open>json_dumps_error msg = ''{"error": '' @ json_string msg @ ''}''\<close>

section \<open>The outside world\<close>

text \<open>
  A chat-completion request carries the messages (role and content), the model name and
  the sampling temperature when one is given. Of the response the program reads
  \<open>choices[0].message.content\<close> only, so a response is the list of the contents of its
  choices; a content may be \<open>None\<close>.
\<close>

record chat_request =
  req_messages :: "(string \<times> string) list"
  req_model :: string
  req_temperature :: "int option"

type_synonym chat_response = "string option list"

text \<open>
  The world records what the program did: the lines it printed, the requests it sent to
  the language model, the tokens it logged in with at the data platform, and the texts
  it gave to \<open>eval\<close>. Writing a line is taken to succeed.
\<close>

record world =
  printed :: "string list"
  groq_calls :: "chat_request list"
  obb_logins :: "string list"
  eval_calls :: "string list"

text \<open>
  The value of \<open>eval(command)\<close> is a \<open>str\<close> or some other Python object; \<open>'o\<close> is the
  type of the other objects.
\<close>

datatype 'o py_value = PyStr string | PyOther 'o

text \<open>
  What the program calls and does not define is a parameter: the chat-completion
  endpoint (given the API key of the client), the login of the data platform, \<open>eval\<close>
  in the interpreter where \<open>obb\<close> is loaded, and \<open>json.dumps(_, indent=2)\<close> on the objects
  that are not strings. Each may raise; the first three may answer differently from
  one call to the next, so they read the world. What the evaluated command does on its
  own, besides returning or raising, is outside the model.
\<close>

record 'o externals =
  groq_create :: "string \<Rightarrow> chat_request \<Rightarrow> world \<Rightarrow> py_exc + chat_response"
  obb_login :: "string \<Rightarrow> world \<Rightarrow> py_exc + unit"
  py_eval :: "string \<Rightarrow> world \<Rightarrow> py_exc + 'o py_value"
  json_dumps_indent2 :: "'o \<Rightarrow> py_exc + string"

definition print_line :: "string \<Rightarrow> world \<Rightarrow> world" where
  \<comment> \<open>\<open>print(s)\<close>\<close>
  "print_line s w = w\<lparr>printed := printed w @ [s]\<rparr>"

section \<open>FinanceAgent\<close>

record agent =
  groq_client :: string
  model :: string

definition truthy :: "string option \<Rightarrow> bool" where
  \<comment> \<open>the truth value of an \<open>os.getenv\<close> result: \<open>None\<close> and \<open>""\<close> are false\<close>
  "truthy v = (case v of None \<Rightarrow> False | Some s \<Rightarrow> s \<noteq> [])"

definition FinanceAgent_init ::
  "'o externals \<Rightarrow> string option \<Rightarrow> string option \<Rightarrow> world \<Rightarrow> (py_exc + agent) \<times> world" where
  \<comment> \<open>\<open>FinanceAgent.__init__\<close>\<close>
  "FinanceAgent_init ext groq_api_key openbb_pat w =
     (if \<not> truthy groq_api_key \<or> \<not> truthy openbb_pat
      then (Inl (plain_exc ValueError ''GROQ_API_KEY and OPENBB_PAT must be set.''), w)
      else
        (let w1 = w\<lparr>obb_logins := obb_logins w @ [the openbb_pat]\<rparr>
         in case obb_login ext (the openbb_pat) w of
              Inl e \<Rightarrow> (Inl e, w1)
            | Inr _ \<Rightarrow>
                (Inr \<lparr>groq_client = the groq_api_key, model = ''llama3-70b-8192''\<rparr>,
                 print_line ''Successfully logged into OpenBB.'' w1)))"

subsection \<open>The two system prompts\<close>

definition triple_quoted :: "string list \<Rightarrow> string" where
  \<comment> \<open>the value of a triple-quoted literal that opens with a line break, holds the given
      lines and closes after eight spaces\<close>
  "triple_quoted ls =
     ''\<newline>'' @ concat (map (\<lambda>l. l @ ''\<newline>'') ls) @ replicate 8 (CHR '' '')"

definition command_system_prompt :: string where
  \<comment> \<open>\<open>system_prompt\<close> of \<open>_get_openbb_command\<close>\<close>
  \<open>command_system_prompt = triple_quoted [
     ''        You are an expert financial analyst AI. Your task is to translate a user's natural language query into a single, executable Python command using the OpenBB library (`obb`).'',
     '''',
     ''        Guidelines:'',
     ''        1.  Only use functions available in the OpenBB SDK.'',
     ''        2.  The final output must be a single line of executable Python code. For example: `obb.equity.price.historical(symbol='AAPL', start_date='2023-01-01', provider='fmp').to_df().to_json()`'',
     ''        3.  If the command returns a data structure (like a DataFrame or a Pydantic model), you MUST append `.to_df().to_json(orient='records', date_format='iso')` or `.to_json()` to convert the output to a JSON string. This is crucial for the system to parse the data.'',
     ''        4.  Do not generate any text other than the command itself. No explanations, no markdown, just the code.'',
     '''',
     ''        Examples:'',
     ''        - User Query: "What's the latest news for Microsoft?"'',
     ''        - Command: `obb.news.company(provider='benzinga', symbol='MSFT', limit=5).to_json()`'',
     '''',
     ''        - User Query: "Get historical stock prices for NVDA from the start of 2024"'',
     ''        - Command: `obb.equity.price.historical(symbol='NVDA', start_date='2024-01-01', provider='fmp').to_df().to_json(orient='records', date_format='iso')`'',
     '''',
     ''        - User Query: "Show me the latest analyst estimates for GOOGL"'',
     ''        - Command: `obb.equity.estimates.price_target(symbol='GOOGL', provider='fmp').to_df().to_json(orient='records', date_format='iso')`'']\<close>

definition summary_system_prompt :: string where
  \<comment> \<open>\<open>system_prompt\<close> of \<open>_summarize_result\<close>\<close>
  \<open>summary_system_prompt = triple_quoted [
     ''        You are an expert financial analyst AI. You will be given a user's question and the corresponding data retrieved from the OpenBB financial platform.'',
     ''        Your task is to provide a clear, concise, and helpful answer to the user's question based *only* on the provided data.'',
     ''        If the data contains an error, acknowledge the error and explain what might have gone wrong.'',
     ''        Format your answer in well-structured markdown.'']\<close>

subsection \<open>Synthesis of the command\<close>

definition strip_markdown :: "string \<Rightarrow> string" where
  \<comment> \<open>what \<open>_get_openbb_command\<close> does to the content of the model's answer\<close>
  "strip_markdown content =
     (let command = py_strip content;
          command = (if py_startswith command ''`python\<newline>''
                     then py_strip (py_slice 8 (- 4) command) else command);
          command = (if py_startswith command ''`''
                     then py_strip_chars ''`'' command else command)
      in command)"

definition command_request :: "agent \<Rightarrow> string \<Rightarrow> chat_request" where
  \<comment> \<open>the arguments of \<open>chat.completions.create\<close> in \<open>_get_openbb_command\<close>\<close>
  "command_request a query =
     \<lparr>req_messages = [(''system'', command_system_prompt), (''user'', query)],
      req_model = model a,
      req_temperature = Some 0\<rparr>"

definition first_choice_content :: "chat_response \<Rightarrow> py_exc + string option" where
  \<comment> \<open>\<open>chat_completion.choices[0].message.content\<close>\<close>
  "first_choice_content choices =
     (case choices of
        [] \<Rightarrow> Inl (plain_exc OtherException ''list index out of range'')
      | c # _ \<Rightarrow> Inr c)"

definition get_openbb_command ::
  "'o externals \<Rightarrow> agent \<Rightarrow> string \<Rightarrow> world \<Rightarrow> (py_exc + string) \<times> world" where
  \<comment> \<open>\<open>FinanceAgent._get_openbb_command\<close>\<close>
  "get_openbb_command ext a query w =
     (let w1 = print_line (''\<newline>> Translating query to OpenBB command: ''
                           @ [CHR 0x27] @ query @ [CHR 0x27]) w;
          req = command_request a query;
          w2 = w1\<lparr>groq_calls := groq_calls w1 @ [req]\<rparr>
      in case groq_create ext (groq_client a) req w1 of
           Inl e \<Rightarrow> (Inl e, w2)
         | Inr choices \<Rightarrow>
             (case first_choice_content choices of
                Inl e \<Rightarrow> (Inl e, w2)
              | Inr None \<Rightarrow>
                  (Inl (plain_exc OtherException
                     ([CHR 0x27] @ ''NoneType'' @ [CHR 0x27] @ '' object has no attribute ''
                      @ [CHR 0x27] @ ''strip'' @ [CHR 0x27])), w2)
              | Inr (Some content) \<Rightarrow>
                  (let command = strip_markdown content
                   in (Inr command, print_line (''< Generated Command: '' @ command) w2))))"

subsection \<open>Execution of the command\<close>

definition execute_handler :: "py_exc \<Rightarrow> world \<Rightarrow> (py_exc + string) \<times> world" where
  \<comment> \<open>the \<open>except Exception as e\<close> clause of \<open>_execute_command\<close>; an exception it does not
      match leaves the function, and so does one raised while the clause formats \<open>e\<close>
      for its line or calls \<open>str(e)\<close>\<close>
  "execute_handler e w =
     (if is_Exception e
      then (case exc_format e of
              Inl e' \<Rightarrow> (Inl e', w)
            | Inr shown \<Rightarrow>
                (let w1 = print_line (''< Error executing command: '' @ shown) w
                 in case exc_str e of
                      Inl e' \<Rightarrow> (Inl e', w1)
                    | Inr msg \<Rightarrow> (Inr (json_dumps_error msg), w1)))
      else (Inl e, w))"

definition execute_command ::
  "'o externals \<Rightarrow> string \<Rightarrow> world \<Rightarrow> (py_exc + string) \<times> world" where
  \<comment> \<open>\<open>FinanceAgent._execute_command\<close>\<close>
  "execute_command ext command w =
     (let w1 = print_line ''\<newline>> Executing command...'' w;
          w2 = w1\<lparr>eval_calls := eval_calls w1 @ [command]\<rparr>
      in case py_eval ext command w1 of
           Inl e \<Rightarrow> execute_handler e w2
         | Inr (PyStr s) \<Rightarrow> (Inr s, print_line ''< Command executed successfully.'' w2)
         | Inr (PyOther obj) \<Rightarrow>
             (case json_dumps_indent2 ext obj of
                Inl e \<Rightarrow> execute_handler e w2
              | Inr s \<Rightarrow> (Inr s, print_line ''< Command executed successfully.'' w2)))"

subsection \<open>Summary of the data\<close>

definition max_data_length :: nat where
  "max_data_length = 15000"

definition truncate_data :: "string \<Rightarrow> string" where
  \<comment> \<open>the truncation step of \<open>_summarize_result\<close>\<close>
  "truncate_data data =
     (if length data > max_data_length
      then take max_data_length data @ ''... [data truncated]''
      else data)"

definition summary_request :: "agent \<Rightarrow> string \<Rightarrow> string \<Rightarrow> chat_request" where
  \<comment> \<open>the arguments of \<open>chat.completions.create\<close> in \<open>_summarize_result\<close>; no temperature\<close>
  "summary_request a query data =
     (let data = truncate_data data;
          user_content = ''Original Question: '' @ query
            @ ''\<newline>\<newline>Retrieved Data (in JSON format):\<newline>'' @ data
      in \<lparr>req_messages = [(''system'', summary_system_prompt), (''user'', user_content)],
          req_model = model a,
          req_temperature = None\<rparr>)"

definition summarize_result ::
  "'o externals \<Rightarrow> agent \<Rightarrow> string \<Rightarrow> string \<Rightarrow> world \<Rightarrow> (py_exc + string option) \<times> world" where
  \<comment> \<open>\<open>FinanceAgent._summarize_result\<close>; the summary is the content of the first choice,
      which may be \<open>None\<close>\<close>
  "summarize_result ext a query data w =
     (let w1 = print_line ''\<newline>> Summarizing data...'' w;
          req = summary_request a query data;
          w2 = w1\<lparr>groq_calls := groq_calls w1 @ [req]\<rparr>
      in case groq_create ext (groq_client a) req w1 of
           Inl e \<Rightarrow> (Inl e, w2)
         | Inr choices \<Rightarrow>
             (case first_choice_content choices of
                Inl e \<Rightarrow> (Inl e, w2)
              | Inr summary \<Rightarrow> (Inr summary, print_line ''< Summary generated.'' w2)))"

subsection \<open>The pipeline\<close>

definition py_str_of :: "string option \<Rightarrow> string" where
  \<comment> \<open>what \<open>print\<close> writes for a \<open>str\<close> or \<open>None\<close>\<close>
  "py_str_of v = (case v of None \<Rightarrow> ''None'' | Some s \<Rightarrow> s)"

definition run :: "'o externals \<Rightarrow> agent \<Rightarrow> string \<Rightarrow> world \<Rightarrow> (py_exc + unit) \<times> world" where
  \<comment> \<open>\<open>FinanceAgent.run\<close>\<close>
  "run ext a query w =
     (case get_openbb_command ext a query w of
        (Inl e, w1) \<Rightarrow> (Inl e, w1)
      | (Inr command, w1) \<Rightarrow>
          (case execute_command ext command w1 of
             (Inl e, w2) \<Rightarrow> (Inl e, w2)
           | (Inr data, w2) \<Rightarrow>
               (case summarize_result ext a query data w2 of
                  (Inl e, w3) \<Rightarrow> (Inl e, w3)
                | (Inr summary, w3) \<Rightarrow>
                    (Inr (),
                     (print_line (replicate 50 (CHR ''-'') @ ''\<newline>'')
                      \<circ> print_line (py_str_of summary)
                      \<circ> print_line (replicate 50 (CHR ''-''))
                      \<circ> print_line ''Final Answer:''
                      \<circ> print_line (''\<newline>'' @ replicate 50 (CHR ''-''))) w3))))"

definition main_handler :: "py_exc \<Rightarrow> world \<Rightarrow> (py_exc + unit) \<times> world" where
  \<comment> \<open>the two \<open>except\<close> clauses of \<open>main\<close>, in their order; each formats \<open>e\<close> for its first
      line, and an exception raised there leaves \<open>main\<close>\<close>
  "main_handler e w =
     (if is_ValueError e
      then (case exc_format e of
              Inl e' \<Rightarrow> (Inl e', w)
            | Inr shown \<Rightarrow>
                (Inr (),
                 (print_line ''Please make sure you have a .env file with GROQ_API_KEY and OPENBB_PAT set.''
                  \<circ> print_line (''Error: '' @ shown)) w))
      else if is_Exception e
      then (case exc_format e of
              Inl e' \<Rightarrow> (Inl e', w)
            | Inr shown \<Rightarrow>
                (Inr (), print_line (''An unexpected error occurred: '' @ shown) w))
      else (Inl e, w))"

definition main ::
  "'o externals \<Rightarrow> string option \<Rightarrow> string option \<Rightarrow> string \<Rightarrow> world \<Rightarrow> (py_exc + unit) \<times> world" where
  \<comment> \<open>\<open>main\<close>, from the \<open>try\<close> on: the arguments are the two \<open>os.getenv\<close> results and the
      parsed \<open>args.query\<close>\<close>
  "main ext groq_api_key openbb_pat query w =
     (case FinanceAgent_init ext groq_api_key openbb_pat w of
        (Inl e, w1) \<Rightarrow> main_handler e w1
      | (Inr a, w1) \<Rightarrow>
          (case run ext a query w1 of
             (Inl e, w2) \<Rightarrow> main_handler e w2
           | (Inr u, w2) \<Rightarrow> (Inr u, w2)))"

section \<open>Reading an escaped text back\<close>




section \<open>Stub collaborators for concrete runs\<close>

text \<open>
  A world where nothing has happened yet, collaborators that give one fixed answer each
  (the login succeeds), a language model that echoes what it is sent, and an agent as
  \<open>FinanceAgent_init\<close> builds it.
\<close>

definition fresh_world :: world where
  "fresh_world = \<lparr>printed = [], groq_calls = [], obb_logins = [], eval_calls = []\<rparr>"

definition stub_externals ::
  "(py_exc + chat_response) \<Rightarrow> (py_exc + unit py_value) \<Rightarrow> (py_exc + string) \<Rightarrow> unit externals" where
  "stub_externals llm ev dumps =
     \<lparr>groq_create = (\<lambda>key req w. llm),
      obb_login = (\<lambda>pat w. Inr ()),
      py_eval = (\<lambda>command w. ev),
      json_dumps_indent2 = (\<lambda>obj. dumps)\<rparr>"

definition echo_externals :: "unit externals" where
  \<comment> \<open>a language model that answers every request with the content of its last message\<close>
  "echo_externals =
     \<lparr>groq_create = (\<lambda>key req w.
         Inr (case rev (req_messages req) of [] \<Rightarrow> [] | m # _ \<Rightarrow> [Some (snd m)])),
      obb_login = (\<lambda>pat w. Inr ()),
      py_eval = (\<lambda>command w. Inr (PyStr command)),
      json_dumps_indent2 = (\<lambda>obj. Inr ''null'')\<rparr>"

definition demo_agent :: agent where
  "demo_agent = \<lparr>groq_client = ''gsk_demo'', model = ''llama3-70b-8192''\<rparr>"

section \<open>Auxiliary facts\<close>

lemma print_line_fields [simp]:
  "printed (print_line s w) = printed w @ [s]"
  "groq_calls (print_line s w) = groq_calls w"
  "obb_logins (print_line s w) = obb_logins w"
  "eval_calls (print_line s w) = eval_calls w"
  by (simp_all add: print_line_def)

lemmas exec_defs = execute_command_def execute_handler_def Let_def

lemmas strip_defs = strip_markdown_def py_strip_def py_strip_by_def py_isspace_def
  py_startswith_def py_strip_chars_def py_slice_def py_slice_index_def Let_def

lemma execute_on_str:
  assumes "py_eval ext command (print_line ''\<newline>> Executing command...'' w) = Inr (PyStr s)"
  shows "fst (execute_command ext command w) = Inr s"
  using assms by (simp add: exec_defs)


lemma execute_eval_log:
  "eval_calls (snd (execute_command ext command w)) = eval_calls w @ [command]"
  by (simp add: exec_defs split: sum.splits py_value.splits)

lemma execute_on_fault:
  assumes "py_eval ext command (print_line ''\<newline>> Executing command...'' w) = Inl e
           \<or> (\<exists>obj. py_eval ext command (print_line ''\<newline>> Executing command...'' w)
                       = Inr (PyOther obj)
                     \<and> json_dumps_indent2 ext obj = Inl e)"
  shows "fst (execute_command ext command w)
         = fst (execute_handler e
                  ((print_line ''\<newline>> Executing command...'' w)
                     \<lparr>eval_calls := eval_calls w @ [command]\<rparr>))"
  using assms by (auto simp add: execute_command_def Let_def)


lemma handler_encodes:
  assumes "is_Exception e" and "exc_format e = Inr shown" and "exc_str e = Inr msg"
  shows "fst (execute_handler e w) = Inr (json_dumps_error msg)"
  using assms by (simp add: execute_handler_def Let_def)













lemma summarize_result_consults:
  assumes "groq_create ext' (groq_client a) (summary_request a query data)
             (print_line ''\<newline>> Summarizing data...'' w)
           = groq_create ext (groq_client a) (summary_request a query data)
             (print_line ''\<newline>> Summarizing data...'' w)"
  shows "summarize_result ext' a query data w = summarize_result ext a query data w"
  using assms by (simp add: summarize_result_def Let_def)

lemma truncated_is_payload:
  "(take n data @ marker = data) = (drop n data = marker)"
proof -
  have "(take n data @ marker = take n data @ drop n data) = (marker = drop n data)"
    by (rule same_append_eq)
  then show ?thesis by auto
qed

lemma summarize_result_groq_calls:
  "groq_calls (snd (summarize_result ext a query data w)) = groq_calls w @ [summary_request a query data]"
  by (simp add: summarize_result_def Let_def split: sum.splits)

lemma get_openbb_command_groq_calls:
  "groq_calls (snd (get_openbb_command ext a query w)) = groq_calls w @ [command_request a query]"
  by (simp add: get_openbb_command_def Let_def split: sum.splits option.splits)

lemma get_openbb_command_result:
  assumes "groq_create ext (groq_client a) (command_request a query)
             (print_line (''\<newline>> Translating query to OpenBB command: ''
                          @ [CHR 0x27] @ query @ [CHR 0x27]) w) = resp"
  shows "fst (get_openbb_command ext a query w) =
           (case resp of
              Inl e \<Rightarrow> Inl e
            | Inr choices \<Rightarrow>
                (case first_choice_content choices of
                   Inl e \<Rightarrow> Inl e
                 | Inr None \<Rightarrow>
                     Inl (plain_exc OtherException
                       ([CHR 0x27] @ ''NoneType'' @ [CHR 0x27] @ '' object has no attribute ''
                        @ [CHR 0x27] @ ''strip'' @ [CHR 0x27]))
                 | Inr (Some content) \<Rightarrow> Inr (strip_markdown content)))"
  using assms by (simp add: get_openbb_command_def Let_def split: sum.splits option.splits)

lemma init_missing:
  assumes "\<not> truthy groq_api_key \<or> \<not> truthy openbb_pat"
  shows "FinanceAgent_init ext groq_api_key openbb_pat w
         = (Inl (plain_exc ValueError ''GROQ_API_KEY and OPENBB_PAT must be set.''), w)"
  using assms by (auto simp add: FinanceAgent_init_def)

section \<open>The executor\<close>

text \<open>
  Claim C1, as stated, says that the executor dispatches with a validated operation
  identifier and validated parameters only, and never evaluates the synthesized text as
  a string. It fails: a text that names no operation of the data platform is handed to
  \<open>eval\<close> as it is, and its value is returned.
\<close>

theorem execute_evaluates_arbitrary_text:
  "eval_calls (snd (execute_command
       (stub_externals (Inr []) (Inr (PyStr ''/home/agent'')) (Inr ''null''))
       ''__import__('os').getcwd()'' fresh_world))
     = [''__import__('os').getcwd()'']
   \<and> fst (execute_command
       (stub_externals (Inr []) (Inr (PyStr ''/home/agent'')) (Inr ''null''))
       ''__import__('os').getcwd()'' fresh_world)
     = Inr ''/home/agent''"
  by (simp add: exec_defs stub_externals_def fresh_world_def)

text \<open>
  Claim C1, amended: for every command, \<open>_execute_command\<close> hands the whole synthesized
  text, unchanged and unvalidated, to \<open>eval\<close> exactly once, and a string that the
  evaluation yields is returned as it is.
\<close>

theorem execute_passes_whole_command_to_eval:
  "eval_calls (snd (execute_command ext command w)) = eval_calls w @ [command]
   \<and> (py_eval ext command (print_line ''\<newline>> Executing command...'' w) = Inr (PyStr s)
        \<longrightarrow> fst (execute_command ext command w) = Inr s)"
proof
  show "eval_calls (snd (execute_command ext command w)) = eval_calls w @ [command]"
    by (rule execute_eval_log)
next
  show "py_eval ext command (print_line ''\<newline>> Executing command...'' w) = Inr (PyStr s)
        \<longrightarrow> fst (execute_command ext command w) = Inr s"
    by (simp add: execute_on_str)
qed

theorem execute_passes_whole_command_to_eval_witness:
  "eval_calls (snd (execute_command
       (stub_externals (Inr []) (Inr (PyStr ''posix'')) (Inr ''null''))
       ''__import__('os').name'' fresh_world)) = [''__import__('os').name'']
   \<and> fst (execute_command
       (stub_externals (Inr []) (Inr (PyStr ''posix'')) (Inr ''null''))
       ''__import__('os').name'' fresh_world) = Inr ''posix''"
  using execute_passes_whole_command_to_eval [of
       "stub_externals (Inr []) (Inr (PyStr ''posix'')) (Inr ''null'')"
       "''__import__('os').name''" fresh_world "''posix''"]
  by (simp add: fresh_world_def stub_externals_def)

text \<open>
  Claim C2, as stated, says that a request naming an operation outside the allow-list
  is answered with the failure "unknown operation" and that nothing is invoked. It
  fails: there is no allow-list, the text is evaluated, and the answer carries the
  message of the exception the evaluation raised.
\<close>

theorem execute_unknown_operation_is_evaluated:
  "fst (execute_command
       (stub_externals (Inr []) (Inl (plain_exc OtherException ''no attribute nope'')) (Inr ''null''))
       ''obb.crypto.nope(symbol='BTC')'' fresh_world)
     = Inr (json_dumps_error ''no attribute nope'')
   \<and> json_dumps_error ''no attribute nope'' \<noteq> json_dumps_error ''unknown operation''
   \<and> json_dumps_error ''no attribute nope'' \<noteq> ''unknown operation''
   \<and> eval_calls (snd (execute_command
       (stub_externals (Inr []) (Inl (plain_exc OtherException ''no attribute nope'')) (Inr ''null''))
       ''obb.crypto.nope(symbol='BTC')'' fresh_world))
     = [''obb.crypto.nope(symbol='BTC')'']"
  by (simp add: exec_defs stub_externals_def fresh_world_def is_Exception_def plain_exc_def
      json_dumps_error_def json_string_def json_escape_char_def)

text \<open>
  Claim C2, amended: for any command, also one naming an operation that does not exist,
  \<open>_execute_command\<close> evaluates the text; when the evaluation raises an \<open>Exception\<close> with
  message \<open>m\<close>, the result is the JSON text of \<open>{"error": m}\<close>.
\<close>

theorem execute_reports_evaluation_error:
  assumes "py_eval ext command (print_line ''\<newline>> Executing command...'' w) = Inl e"
    and "is_Exception e"
    and "exc_format e = Inr shown"
    and "exc_str e = Inr m"
  shows "fst (execute_command ext command w) = Inr (json_dumps_error m)
         \<and> eval_calls (snd (execute_command ext command w)) = eval_calls w @ [command]"
proof
  from assms(1) have "fst (execute_command ext command w)
      = fst (execute_handler e
               ((print_line ''\<newline>> Executing command...'' w)
                  \<lparr>eval_calls := eval_calls w @ [command]\<rparr>))"
    by (simp add: execute_on_fault)
  with assms(2-4) show "fst (execute_command ext command w) = Inr (json_dumps_error m)"
    by (simp add: handler_encodes)
next
  show "eval_calls (snd (execute_command ext command w)) = eval_calls w @ [command]"
    by (rule execute_eval_log)
qed

theorem execute_reports_evaluation_error_witness:
  "py_eval (stub_externals (Inr []) (Inl (plain_exc OtherException ''no attribute nope'')) (Inr ''null''))
       ''obb.crypto.nope()'' (print_line ''\<newline>> Executing command...'' fresh_world)
     = Inl (plain_exc OtherException ''no attribute nope'')
   \<and> is_Exception (plain_exc OtherException ''no attribute nope'')
   \<and> exc_format (plain_exc OtherException ''no attribute nope'') = Inr ''no attribute nope''
   \<and> exc_str (plain_exc OtherException ''no attribute nope'') = Inr ''no attribute nope''
   \<and> fst (execute_command
       (stub_externals (Inr []) (Inl (plain_exc OtherException ''no attribute nope'')) (Inr ''null''))
       ''obb.crypto.nope()'' fresh_world)
     = Inr (json_dumps_error ''no attribute nope'')
   \<and> eval_calls (snd (execute_command
       (stub_externals (Inr []) (Inl (plain_exc OtherException ''no attribute nope'')) (Inr ''null''))
       ''obb.crypto.nope()'' fresh_world))
     = [''obb.crypto.nope()'']"
  using execute_reports_evaluation_error [of
      "stub_externals (Inr []) (Inl (plain_exc OtherException ''no attribute nope'')) (Inr ''null'')"
      "''obb.crypto.nope()''" fresh_world "plain_exc OtherException ''no attribute nope''"
      "''no attribute nope''" "''no attribute nope''"]
  by (simp add: stub_externals_def fresh_world_def is_Exception_def plain_exc_def)







section \<open>The summarizer\<close>

text \<open>
  Claim C4, as stated, says that \<open>_summarize_result\<close> never fails and always returns a
  non-empty summary. It fails: the function has no handler, so a fault of the model call
  leaves it.
\<close>

theorem summarize_propagates_model_fault:
  "fst (summarize_result
       (stub_externals (Inl (plain_exc OtherException ''Connection error.'')) (Inr (PyStr ''[]'')) (Inr ''[]''))
       demo_agent ''What is the price of AAPL?'' ''[]'' fresh_world)
     = Inl (plain_exc OtherException ''Connection error.'')"
  by (simp add: summarize_result_def stub_externals_def Let_def)

text \<open>
  Claim C4, amended: when the model call answers with at least one choice,
  \<open>_summarize_result\<close> returns the content of the first choice as it is (it may be empty
  or \<open>None\<close>); when the model call raises, the exception propagates to the caller.
\<close>

theorem summarize_returns_first_choice:
  "(groq_create ext (groq_client a) (summary_request a query data)
        (print_line ''\<newline>> Summarizing data...'' w) = Inr (c # cs)
      \<longrightarrow> fst (summarize_result ext a query data w) = Inr c)
   \<and> (groq_create ext (groq_client a) (summary_request a query data)
        (print_line ''\<newline>> Summarizing data...'' w) = Inl e
      \<longrightarrow> fst (summarize_result ext a query data w) = Inl e)"
  by (simp add: summarize_result_def first_choice_content_def Let_def)

theorem summarize_returns_first_choice_witness:
  "fst (summarize_result
       (stub_externals (Inr [Some '''', Some ''unused'']) (Inr (PyStr ''[]'')) (Inr ''[]''))
       demo_agent ''q'' ''[]'' fresh_world) = Inr (Some '''')
   \<and> fst (summarize_result
       (stub_externals (Inl (plain_exc OtherException ''Rate limit reached'')) (Inr (PyStr ''[]'')) (Inr ''[]''))
       demo_agent ''q'' ''[]'' fresh_world) = Inl (plain_exc OtherException ''Rate limit reached'')"
  using summarize_returns_first_choice [of
      "stub_externals (Inr [Some '''', Some ''unused'']) (Inr (PyStr ''[]'')) (Inr ''[]'')"
      demo_agent "''q''" "''[]''" fresh_world "Some ''''" "[Some ''unused'']"
      "plain_exc OtherException ''Rate limit reached''"]
    summarize_returns_first_choice [of
      "stub_externals (Inl (plain_exc OtherException ''Rate limit reached'')) (Inr (PyStr ''[]'')) (Inr ''[]'')"
      demo_agent "''q''" "''[]''" fresh_world "Some ''''" "[]"
      "plain_exc OtherException ''Rate limit reached''"]
  by (simp add: stub_externals_def)

text \<open>
  Claim C5, as stated, ends with: never the full payload. That part fails for a payload
  of 15000 characters followed by the text of the marker itself: the truncation rebuilds
  the payload, and the model is sent all of it.
\<close>

theorem summarize_sends_whole_payload:
  "length (replicate 15000 (CHR ''7'') @ ''... [data truncated]'') > 15000
   \<and> fst (summarize_result echo_externals demo_agent ''q''
          (replicate 15000 (CHR ''7'') @ ''... [data truncated]'') fresh_world)
     = Inr (Some (''Original Question: q\<newline>\<newline>Retrieved Data (in JSON format):\<newline>''
                  @ (replicate 15000 (CHR ''7'') @ ''... [data truncated]'')))
   \<and> map snd (req_messages (last (groq_calls (snd (summarize_result echo_externals demo_agent ''q''
          (replicate 15000 (CHR ''7'') @ ''... [data truncated]'') fresh_world)))))
     = [summary_system_prompt,
        ''Original Question: q\<newline>\<newline>Retrieved Data (in JSON format):\<newline>''
          @ (replicate 15000 (CHR ''7'') @ ''... [data truncated]'')]"
  by (simp add: summarize_result_def summary_request_def truncate_data_def max_data_length_def
      first_choice_content_def echo_externals_def fresh_world_def demo_agent_def Let_def)

text \<open>
  Claim C5, amended: for data longer than 15000 characters, the user message sent to the
  model holds, after the fixed heading and the query, exactly the first 15000 characters
  of the data followed by the marker \<open>... [data truncated]\<close>; the model is asked with this
  request and no other; and what is sent is the full payload exactly when the payload's
  own characters after the 15000th are the marker.
\<close>

theorem summarize_truncates_long_data:
  assumes "length data > 15000"
  shows "groq_calls (snd (summarize_result ext a query data w)) =
           groq_calls w @
           [\<lparr>req_messages =
               [(''system'', summary_system_prompt),
                (''user'', ''Original Question: '' @ query
                   @ ''\<newline>\<newline>Retrieved Data (in JSON format):\<newline>''
                   @ take 15000 data @ ''... [data truncated]'')],
             req_model = model a, req_temperature = None\<rparr>]
         \<and> length (take 15000 data) = 15000
         \<and> (\<forall>ext'.
               groq_create ext' (groq_client a)
                 \<lparr>req_messages =
                    [(''system'', summary_system_prompt),
                     (''user'', ''Original Question: '' @ query
                        @ ''\<newline>\<newline>Retrieved Data (in JSON format):\<newline>''
                        @ take 15000 data @ ''... [data truncated]'')],
                  req_model = model a, req_temperature = None\<rparr>
                 (print_line ''\<newline>> Summarizing data...'' w)
               = groq_create ext (groq_client a)
                 \<lparr>req_messages =
                    [(''system'', summary_system_prompt),
                     (''user'', ''Original Question: '' @ query
                        @ ''\<newline>\<newline>Retrieved Data (in JSON format):\<newline>''
                        @ take 15000 data @ ''... [data truncated]'')],
                  req_model = model a, req_temperature = None\<rparr>
                 (print_line ''\<newline>> Summarizing data...'' w)
               \<longrightarrow> summarize_result ext' a query data w = summarize_result ext a query data w)
         \<and> ((take 15000 data @ ''... [data truncated]'' = data)
              = (drop 15000 data = ''... [data truncated]''))"
proof -
  have req: "summary_request a query data =
      \<lparr>req_messages =
          [(''system'', summary_system_prompt),
           (''user'', ''Original Question: '' @ query
              @ ''\<newline>\<newline>Retrieved Data (in JSON format):\<newline>''
              @ take 15000 data @ ''... [data truncated]'')],
        req_model = model a, req_temperature = None\<rparr>"
    using assms by (simp add: summary_request_def truncate_data_def max_data_length_def)
  have sent: "groq_calls (snd (summarize_result ext a query data w))
      = groq_calls w @ [summary_request a query data]"
    by (rule summarize_result_groq_calls)
  have len: "length (take 15000 data) = 15000"
    using assms by simp
  have only: "summarize_result ext' a query data w = summarize_result ext a query data w"
    if "groq_create ext' (groq_client a) (summary_request a query data)
          (print_line ''\<newline>> Summarizing data...'' w)
        = groq_create ext (groq_client a) (summary_request a query data)
          (print_line ''\<newline>> Summarizing data...'' w)" for ext'
    using that by (rule summarize_result_consults)
  have whole: "(take 15000 data @ ''... [data truncated]'' = data)
      = (drop 15000 data = ''... [data truncated]'')"
    by (rule truncated_is_payload)
  from sent len only whole show ?thesis
    unfolding req by blast
qed

theorem summarize_truncates_long_data_witness:
  "length (replicate 15001 (CHR ''7'')) > 15000
   \<and> groq_calls (snd (summarize_result echo_externals
        demo_agent ''q'' (replicate 15001 (CHR ''7'')) fresh_world)) =
       [\<lparr>req_messages =
               [(''system'', summary_system_prompt),
                (''user'', ''Original Question: q\<newline>\<newline>Retrieved Data (in JSON format):\<newline>''
                   @ replicate 15000 (CHR ''7'') @ ''... [data truncated]'')],
             req_model = ''llama3-70b-8192'', req_temperature = None\<rparr>]
   \<and> fst (summarize_result echo_externals demo_agent ''q'' (replicate 15001 (CHR ''7'')) fresh_world)
     = Inr (Some (''Original Question: q\<newline>\<newline>Retrieved Data (in JSON format):\<newline>''
                  @ replicate 15000 (CHR ''7'') @ ''... [data truncated]''))
   \<and> summarize_result
        (stub_externals
           (Inr [Some (''Original Question: q\<newline>\<newline>Retrieved Data (in JSON format):\<newline>''
                       @ replicate 15000 (CHR ''7'') @ ''... [data truncated]'')])
           (Inr (PyStr ''[]'')) (Inr ''[]''))
        demo_agent ''q'' (replicate 15001 (CHR ''7'')) fresh_world
     = summarize_result echo_externals demo_agent ''q'' (replicate 15001 (CHR ''7'')) fresh_world
   \<and> take 15000 (replicate 15001 (CHR ''7'')) @ ''... [data truncated]'' \<noteq> replicate 15001 (CHR ''7'')"
proof -
  have len: "length (replicate 15001 (CHR ''7'')) > 15000" by simp
  note run = summarize_truncates_long_data [OF len, where ext = echo_externals
      and a = demo_agent and query = "''q''" and w = fresh_world]
  have sent: "groq_calls (snd (summarize_result echo_externals
        demo_agent ''q'' (replicate 15001 (CHR ''7'')) fresh_world)) =
       [\<lparr>req_messages =
               [(''system'', summary_system_prompt),
                (''user'', ''Original Question: q\<newline>\<newline>Retrieved Data (in JSON format):\<newline>''
                   @ replicate 15000 (CHR ''7'') @ ''... [data truncated]'')],
             req_model = ''llama3-70b-8192'', req_temperature = None\<rparr>]"
    using run [THEN conjunct1] by (simp add: fresh_world_def demo_agent_def)
  have answer: "fst (summarize_result echo_externals demo_agent ''q'' (replicate 15001 (CHR ''7'')) fresh_world)
     = Inr (Some (''Original Question: q\<newline>\<newline>Retrieved Data (in JSON format):\<newline>''
                  @ replicate 15000 (CHR ''7'') @ ''... [data truncated]''))"
    by (simp add: summarize_result_def summary_request_def truncate_data_def max_data_length_def
        first_choice_content_def echo_externals_def Let_def)
  have same: "summarize_result
        (stub_externals
           (Inr [Some (''Original Question: q\<newline>\<newline>Retrieved Data (in JSON format):\<newline>''
                       @ replicate 15000 (CHR ''7'') @ ''... [data truncated]'')])
           (Inr (PyStr ''[]'')) (Inr ''[]''))
        demo_agent ''q'' (replicate 15001 (CHR ''7'')) fresh_world
     = summarize_result echo_externals demo_agent ''q'' (replicate 15001 (CHR ''7'')) fresh_world"
    by (rule run [THEN conjunct2, THEN conjunct2, THEN conjunct1, rule_format])
       (simp add: stub_externals_def echo_externals_def)
  have differs: "take 15000 (replicate 15001 (CHR ''7'')) @ ''... [data truncated]''
      \<noteq> replicate 15001 (CHR ''7'')"
    using run [THEN conjunct2, THEN conjunct2, THEN conjunct2] by simp
  from len sent answer same differs show ?thesis by (intro conjI)
qed

text \<open>
  Claim C10: the test is \<open>len(data) > 15000\<close>, so data of exactly 15000 characters is
  sent unmodified, with no marker after it.
\<close>

theorem summarize_keeps_data_at_ceiling:
  assumes "length data = 15000"
  shows "groq_calls (snd (summarize_result ext a query data w)) =
           groq_calls w @
           [\<lparr>req_messages =
               [(''system'', summary_system_prompt),
                (''user'', ''Original Question: '' @ query
                   @ ''\<newline>\<newline>Retrieved Data (in JSON format):\<newline>'' @ data)],
             req_model = model a, req_temperature = None\<rparr>]"
  using assms
  by (simp add: summarize_result_groq_calls summary_request_def truncate_data_def
      max_data_length_def)

theorem summarize_keeps_data_at_ceiling_witness:
  "length (replicate 15000 (CHR ''7'')) = 15000
   \<and> groq_calls (snd (summarize_result (stub_externals (Inr [Some ''ok'']) (Inr (PyStr ''[]'')) (Inr ''[]''))
        demo_agent ''q'' (replicate 15000 (CHR ''7'')) fresh_world)) =
       [\<lparr>req_messages =
               [(''system'', summary_system_prompt),
                (''user'', ''Original Question: q\<newline>\<newline>Retrieved Data (in JSON format):\<newline>''
                   @ replicate 15000 (CHR ''7''))],
             req_model = ''llama3-70b-8192'', req_temperature = None\<rparr>]"
  using summarize_keeps_data_at_ceiling [of "replicate 15000 (CHR ''7'')"
      "stub_externals (Inr [Some ''ok'']) (Inr (PyStr ''[]'')) (Inr ''[]'')" demo_agent "''q''" fresh_world]
  by (simp add: fresh_world_def demo_agent_def)

section \<open>The synthesizer\<close>

text \<open>
  Claim C7: \<open>_get_openbb_command\<close> sends the fixed system prompt and the raw query with
  temperature 0, and its result depends on the query and the model's response only: two
  calls with the same query, against a model mocked to one fixed response, return the
  same value, whatever happened before each call.
\<close>

theorem synthesis_is_deterministic:
  assumes "\<And>w. groq_create extA (groq_client a) (command_request a query) w = resp"
    and "\<And>w. groq_create extB (groq_client a) (command_request a query) w = resp"
  shows "fst (get_openbb_command extA a query wA) = fst (get_openbb_command extB a query wB)
         \<and> groq_calls (snd (get_openbb_command extA a query wA))
             = groq_calls wA @
               [\<lparr>req_messages = [(''system'', command_system_prompt), (''user'', query)],
                 req_model = model a, req_temperature = Some 0\<rparr>]"
  using assms
  by (simp add: get_openbb_command_result get_openbb_command_groq_calls command_request_def)

theorem synthesis_is_deterministic_witness:
  "(\<forall>w. groq_create (stub_externals (Inr [Some ''`obb.news.world().to_json()`'']) (Inr (PyStr ''[]'')) (Inr ''[]''))
          (groq_client demo_agent) (command_request demo_agent ''news?'') w
        = Inr [Some ''`obb.news.world().to_json()`''])
   \<and> fst (get_openbb_command
          (stub_externals (Inr [Some ''`obb.news.world().to_json()`'']) (Inr (PyStr ''[]'')) (Inr ''[]''))
          demo_agent ''news?'' fresh_world)
     = fst (get_openbb_command
          (stub_externals (Inr [Some ''`obb.news.world().to_json()`'']) (Inr (PyStr ''[]'')) (Inr ''[]''))
          demo_agent ''news?''
          (snd (get_openbb_command
             (stub_externals (Inr [Some ''`obb.news.world().to_json()`'']) (Inr (PyStr ''[]'')) (Inr ''[]''))
             demo_agent ''news?'' fresh_world)))
   \<and> groq_calls (snd (get_openbb_command
          (stub_externals (Inr [Some ''`obb.news.world().to_json()`'']) (Inr (PyStr ''[]'')) (Inr ''[]''))
          demo_agent ''news?'' fresh_world))
     = [\<lparr>req_messages = [(''system'', command_system_prompt), (''user'', ''news?'')],
         req_model = ''llama3-70b-8192'', req_temperature = Some 0\<rparr>]"
  using synthesis_is_deterministic [where
      extA = "stub_externals (Inr [Some ''`obb.news.world().to_json()`'']) (Inr (PyStr ''[]'')) (Inr ''[]'')"
      and extB = "stub_externals (Inr [Some ''`obb.news.world().to_json()`'']) (Inr (PyStr ''[]'')) (Inr ''[]'')"
      and a = demo_agent and query = "''news?''"
      and resp = "Inr [Some ''`obb.news.world().to_json()`'']"
      and wA = fresh_world
      and wB = "snd (get_openbb_command
             (stub_externals (Inr [Some ''`obb.news.world().to_json()`'']) (Inr (PyStr ''[]'')) (Inr ''[]''))
             demo_agent ''news?'' fresh_world)"]
  by (simp add: stub_externals_def fresh_world_def demo_agent_def)

text \<open>
  Claim C8 says that a fenced answer comes back with the fence removed. The code tests
  for a prefix of one backquote, \<open>python\<close> and a line break, so an answer fenced with three
  backquotes and the language tag skips the first branch; the second branch strips the
  backquotes only, and the tag \<open>python\<close> and both line breaks stay in the command.
\<close>

theorem strip_markdown_keeps_language_tag:
  "strip_markdown ''```python\<newline>obb.news.company(symbol='MSFT', limit=5).to_json()\<newline>```''
   = ''python\<newline>obb.news.company(symbol='MSFT', limit=5).to_json()\<newline>''"
  by (simp add: strip_defs)

section \<open>Startup\<close>

text \<open>
  Claim C6, as stated, ends with: only the configuration error terminates the process.
  That part fails: with both credentials present, a fault of the model call during
  synthesis ends the run in \<open>main\<close> with no answer printed.
\<close>

theorem main_ends_on_model_fault:
  "main (stub_externals (Inl (plain_exc OtherException ''Connection error.'')) (Inr (PyStr ''[]'')) (Inr ''[]''))
        (Some ''gsk_live'') (Some ''pat_live'') ''AAPL price?'' fresh_world
   = (Inr (),
      \<lparr>printed = [''Successfully logged into OpenBB.'',
                  ''\<newline>> Translating query to OpenBB command: 'AAPL price?'' @ [CHR 0x27],
                  ''An unexpected error occurred: Connection error.''],
       groq_calls = [command_request \<lparr>groq_client = ''gsk_live'', model = ''llama3-70b-8192''\<rparr> ''AAPL price?''],
       obb_logins = [''pat_live''],
       eval_calls = []\<rparr>)"
  by (simp add: main_def main_handler_def FinanceAgent_init_def truthy_def run_def
      get_openbb_command_def stub_externals_def fresh_world_def Let_def print_line_def
      is_ValueError_def is_Exception_def plain_exc_def)

text \<open>
  Claim C6, amended: if either credential is absent or empty, \<open>__init__\<close> raises the
  configuration error before anything else happens (no request to the model, no login,
  no evaluation), and \<open>main\<close> prints the error and the hint and returns. It is not the
  only error that ends a run: an \<open>Exception\<close> other than \<open>ValueError\<close> raised by \<open>run\<close> ends
  it too, reported with its text as an unexpected error.
\<close>

theorem missing_credentials_fail_fast:
  "(\<not> truthy groq_api_key \<or> \<not> truthy openbb_pat \<longrightarrow>
      FinanceAgent_init ext groq_api_key openbb_pat w
        = (Inl (plain_exc ValueError ''GROQ_API_KEY and OPENBB_PAT must be set.''), w)
      \<and> main ext groq_api_key openbb_pat query w
        = (Inr (),
           w\<lparr>printed := printed w @
              [''Error: GROQ_API_KEY and OPENBB_PAT must be set.'',
               ''Please make sure you have a .env file with GROQ_API_KEY and OPENBB_PAT set.'']\<rparr>))
   \<and> (FinanceAgent_init ext groq_api_key openbb_pat w = (Inr a, w_init)
        \<and> run ext a query w_init = (Inl e, w_run) \<and> is_Exception e \<and> \<not> is_ValueError e
        \<and> exc_format e = Inr shown \<longrightarrow>
      main ext groq_api_key openbb_pat query w
        = (Inr (), print_line (''An unexpected error occurred: '' @ shown) w_run))"
proof (intro conjI impI)
  assume missing: "\<not> truthy groq_api_key \<or> \<not> truthy openbb_pat"
  then show init: "FinanceAgent_init ext groq_api_key openbb_pat w
        = (Inl (plain_exc ValueError ''GROQ_API_KEY and OPENBB_PAT must be set.''), w)"
    by (rule init_missing)
  have "is_ValueError (plain_exc ValueError ''GROQ_API_KEY and OPENBB_PAT must be set.'')"
    and "exc_format (plain_exc ValueError ''GROQ_API_KEY and OPENBB_PAT must be set.'')
         = Inr ''GROQ_API_KEY and OPENBB_PAT must be set.''"
    by (simp_all add: is_ValueError_def plain_exc_def)
  then show "main ext groq_api_key openbb_pat query w
        = (Inr (),
           w\<lparr>printed := printed w @
              [''Error: GROQ_API_KEY and OPENBB_PAT must be set.'',
               ''Please make sure you have a .env file with GROQ_API_KEY and OPENBB_PAT set.'']\<rparr>)"
    by (simp add: main_def init main_handler_def print_line_def)
next
  assume "FinanceAgent_init ext groq_api_key openbb_pat w = (Inr a, w_init)
        \<and> run ext a query w_init = (Inl e, w_run) \<and> is_Exception e \<and> \<not> is_ValueError e
        \<and> exc_format e = Inr shown"
  then show "main ext groq_api_key openbb_pat query w
        = (Inr (), print_line (''An unexpected error occurred: '' @ shown) w_run)"
    by (simp add: main_def main_handler_def)
qed

theorem missing_credentials_fail_fast_witness:
  "\<not> truthy (Some '''')
   \<and> main (stub_externals (Inr [Some ''obb.a()'']) (Inr (PyStr ''[]'')) (Inr ''[]''))
        (Some '''') (Some ''pat_live'') ''AAPL price?'' fresh_world
     = (Inr (),
        \<lparr>printed = [''Error: GROQ_API_KEY and OPENBB_PAT must be set.'',
                    ''Please make sure you have a .env file with GROQ_API_KEY and OPENBB_PAT set.''],
         groq_calls = [], obb_logins = [], eval_calls = []\<rparr>)
   \<and> main (stub_externals (Inr []) (Inr (PyStr ''[]'')) (Inr ''[]''))
        (Some ''gsk_live'') (Some ''pat_live'') ''q'' fresh_world
     = (Inr (),
        \<lparr>printed = [''Successfully logged into OpenBB.'',
                    ''\<newline>> Translating query to OpenBB command: 'q'' @ [CHR 0x27],
                    ''An unexpected error occurred: list index out of range''],
         groq_calls = [command_request \<lparr>groq_client = ''gsk_live'', model = ''llama3-70b-8192''\<rparr> ''q''],
         obb_logins = [''pat_live''],
         eval_calls = []\<rparr>)"
  using
    missing_credentials_fail_fast [where
      ext = "stub_externals (Inr [Some ''obb.a()'']) (Inr (PyStr ''[]'')) (Inr ''[]'')"
      and groq_api_key = "Some ''''" and openbb_pat = "Some ''pat_live''"
      and query = "''AAPL price?''" and w = fresh_world]
    missing_credentials_fail_fast [where
      ext = "stub_externals (Inr []) (Inr (PyStr ''[]'')) (Inr ''[]'')"
      and groq_api_key = "Some ''gsk_live''" and openbb_pat = "Some ''pat_live''"
      and query = "''q''" and w = fresh_world
      and a = "\<lparr>groq_client = ''gsk_live'', model = ''llama3-70b-8192''\<rparr>"
      and w_init = "\<lparr>printed = [''Successfully logged into OpenBB.''], groq_calls = [],
                    obb_logins = [''pat_live''], eval_calls = []\<rparr>"
      and e = "plain_exc OtherException ''list index out of range''"
      and shown = "''list index out of range''"
      and w_run = "\<lparr>printed = [''Successfully logged into OpenBB.'',
                    ''\<newline>> Translating query to OpenBB command: 'q'' @ [CHR 0x27]],
                    groq_calls = [command_request \<lparr>groq_client = ''gsk_live'', model = ''llama3-70b-8192''\<rparr> ''q''],
                    obb_logins = [''pat_live''], eval_calls = []\<rparr>"]
  by (simp add: truthy_def FinanceAgent_init_def run_def get_openbb_command_def
      first_choice_content_def stub_externals_def fresh_world_def Let_def print_line_def
      is_ValueError_def is_Exception_def plain_exc_def)

end
